theory Spec2Isabelle
  imports Complex_Main "HOL-Library.Word" "HOL-Library.AList"
begin

unbundle bit_operations_syntax

section \<open>Data model\<close>

text \<open>
  A Python \<^verbatim>\<open>bytes\<close> object is a list of 8-bit words. Timestamps (\<^verbatim>\<open>GraphTime\<close>) and
  their differences (\<^verbatim>\<open>GraphTimeDelta\<close>) are integers counting picoseconds, the finest
  unit the capture library offers. The analyzer only subtracts two timestamps and
  compares the difference with a constant, so nothing else of the library is needed.
\<close>

type_synonym u8 = "8 word"
type_synonym graph_time = int
type_synonym graph_time_delta = int

text \<open>
  \<^verbatim>\<open>GraphTimeDelta(second=..., millisecond=...)\<close>: the library's constructor, restricted to
  the two arguments the analyzer passes. The first positional argument is the seconds.
\<close>

definition GraphTimeDelta :: "int \<Rightarrow> int \<Rightarrow> graph_time_delta" where
  "GraphTimeDelta second millisecond = second * 10 ^ 12 + millisecond * 10 ^ 9"

text \<open>The exceptions the analyzer can raise.\<close>

datatype error = IndexError | KeyError | TypeError

text \<open>The values stored in the attribute dictionary of an emitted frame.\<close>

datatype pyval =
    VStr string
  | VBool bool
  | VInt int
  | VFloat rat
  | VBytes "u8 list"

text \<open>
  A dictionary with string keys is an association list: Python dictionaries keep
  insertion order, an assignment to an existing key keeps its position and an
  assignment to a new key appends, which is what \<^const>\<open>AList.update\<close> does.
  \<^const>\<open>map_of\<close> is the lookup.
\<close>

type_synonym attrs = "(string \<times> pyval) list"

text \<open>
  \<^verbatim>\<open>AnalyzerFrame(type, start_time, end_time, data)\<close>. For an input frame of the serial
  analyzer the field \<open>data\<close> holds the bytes stored under the key \<^verbatim>\<open>"data"\<close>; for an
  emitted frame it holds the attribute dictionary.
\<close>

record 'd AnalyzerFrame =
  type :: string
  start_time :: graph_time
  end_time :: graph_time
  data :: 'd

type_synonym byte_frame = "u8 list AnalyzerFrame"
type_synonym packet_frame = "attrs AnalyzerFrame"

text \<open>The analyzer object: the three attributes set by \<^verbatim>\<open>__init__\<close>.\<close>

record Hla =
  last_start :: "graph_time option"
  last_end :: "graph_time option"
  packet :: "byte_frame list"

definition Hla_init :: Hla where
  "Hla_init = \<lparr>last_start = None, last_end = None, packet = []\<rparr>"

section \<open>Rendering of numbers\<close>

definition hexdigit :: "nat \<Rightarrow> char" where
  "hexdigit n = ''0123456789abcdef'' ! (n mod 16)"

text \<open>\<^verbatim>\<open>bytes.hex()\<close>: two lower-case digits for every byte.\<close>

definition bytes_hex :: "u8 list \<Rightarrow> string" where
  "bytes_hex bs = concat (map (\<lambda>b. [hexdigit (unat b div 16), hexdigit (unat b mod 16)]) bs)"

text \<open>
  \<^verbatim>\<open>hex(n)\<close> and \<^verbatim>\<open>str(n)\<close> of a natural number: the digits without padding, most
  significant first, and the prefix \<^verbatim>\<open>0x\<close> for \<^verbatim>\<open>hex\<close>.
\<close>

function hex_digits :: "nat \<Rightarrow> string" where
  "hex_digits n =
     (if n < 16 then [hexdigit n] else hex_digits (n div 16) @ [hexdigit (n mod 16)])"
  by pat_completeness auto
termination
  by (relation "measure id") auto

function dec_digits :: "nat \<Rightarrow> string" where
  "dec_digits n =
     (if n < 10 then [hexdigit n] else dec_digits (n div 10) @ [hexdigit (n mod 10)])"
  by pat_completeness auto
termination
  by (relation "measure id") auto

declare hex_digits.simps [simp del]
declare dec_digits.simps [simp del]

definition hex_str :: "nat \<Rightarrow> string" where
  "hex_str n = ''0x'' @ hex_digits n"

definition str_int :: "nat \<Rightarrow> string" where
  "str_int n = dec_digits n"

section \<open>The analyzer\<close>

text \<open>
  The names are those of the source, without the leading underscore of
  \<^verbatim>\<open>_PACKETS_DISTANCE\<close>, \<^verbatim>\<open>_checksum\<close>, \<^verbatim>\<open>_FAN_SPEED\<close>, \<^verbatim>\<open>_MODE\<close> and of the
  attributes of the analyzer object.
\<close>

definition PACKETS_DISTANCE :: graph_time_delta where
  "PACKETS_DISTANCE = GraphTimeDelta 1 0"

text \<open>
  \<^verbatim>\<open>functools.reduce(operator.add, packet)\<close> raises \<^verbatim>\<open>TypeError\<close> on an empty sequence;
  otherwise it adds the bytes as unbounded integers, from the left.
\<close>

definition checksum :: "u8 list \<Rightarrow> error + int" where
  "checksum pkt =
     (case pkt of
        [] \<Rightarrow> Inl TypeError
      | x # xs \<Rightarrow> Inr ((foldl (+) (uint x) (map uint xs) AND 0xFF) XOR 0x55))"

definition FAN_SPEED :: "(u8 \<times> string) list" where
  "FAN_SPEED = [(0x00, ''low''), (0x10, ''medium''), (0x20, ''high''), (0x40, ''power'')]"

definition MODE :: "(u8 \<times> string) list" where
  "MODE = [(0x00, ''Cool''), (0x10, ''dH''), (0x20, ''Fan''), (0x40, ''Heat'')]"

text \<open>\<^verbatim>\<open>packet_data[1] / 2 + 10\<close> is a float; halves of a byte are exact.\<close>

definition temperature :: "u8 \<Rightarrow> rat" where
  "temperature b = of_int (uint b) / 2 + 10"

text \<open>
  The annotators write into the dictionary they are given and return nothing. The model
  returns the dictionary, or the exception: the only caller drops the dictionary when
  an annotator raises. An index beyond the end of \<open>packet_data\<close> raises
  \<^verbatim>\<open>IndexError\<close>; the length tests stand where the source first reads that index.
\<close>

definition annotate_hvac_packet :: "u8 list \<Rightarrow> attrs \<Rightarrow> error + attrs" where
  "annotate_hvac_packet packet_data packet_attributes =
     (let a1 = AList.update ''source'' (VStr ''HVAC'') packet_attributes in
      if length packet_data < 2 then Inl IndexError
      else
        let a2 = (if packet_data ! 1 AND 0x80 = 0
                  then AList.update ''room_temperature'' (VFloat (temperature (packet_data ! 1))) a1
                  else a1)
        in
          if length packet_data < 5 then Inl IndexError
          else Inr (AList.update ''unknown_data''
                 (VBytes [packet_data ! 0,
                          if map_of a2 ''room_temperature'' \<noteq> None then 0 else packet_data ! 1,
                          packet_data ! 2,
                          packet_data ! 3,
                          packet_data ! 4]) a2))"

definition annotate_panel_packet :: "u8 list \<Rightarrow> attrs \<Rightarrow> error + attrs" where
  "annotate_panel_packet packet_data packet_attributes =
     (let a1 = AList.update ''source'' (VStr ''Panel'') packet_attributes in
      if packet_data = [] then Inl IndexError
      else if packet_data ! 0 AND 0x90 = 0x90 then
        (let a2 = AList.update ''features_inquiry'' (VBool True) a1 in
         if take 3 (drop 1 packet_data) \<noteq> [0, 0, 0, 0]
         then Inr (AList.update ''unknown_data'' (VBytes (0 # take 3 (drop 1 packet_data))) a2)
         else Inr a2)
      else
        (let mode_val = packet_data ! 0 AND 0x70;
             a2 = AList.update ''mode''
                    (VStr (case map_of MODE mode_val of
                             Some m \<Rightarrow> m
                           | None \<Rightarrow> hex_str (unat mode_val))) a1;
             a3 = AList.update ''resistor?'' (VBool (packet_data ! 0 AND 0x08 \<noteq> 0)) a2;
             a4 = AList.update ''running'' (VBool (packet_data ! 0 AND 0x04 \<noteq> 0)) a3;
             a5 = AList.update ''settings_changed'' (VBool (packet_data ! 0 AND 0x01 \<noteq> 0)) a4
         in
           if length packet_data < 2 then Inl IndexError
           else
             let a6 = AList.update ''room_temperature''
                        (VFloat (temperature (packet_data ! 1))) a5
             in
               if length packet_data < 3 then Inl IndexError
               else
                 let a7 = AList.update ''plasma'' (VBool (packet_data ! 2 AND 0x80 \<noteq> 0)) a6 in
                 case map_of FAN_SPEED (packet_data ! 2 AND 0x70) of
                   None \<Rightarrow> Inl KeyError
                 | Some speed \<Rightarrow>
                     let a8 = AList.update ''fan_speed'' (VStr speed) a7;
                         a9 = AList.update ''set_temperature''
                                (VStr (str_int (unat (packet_data ! 2 AND 0x0F) + 16))) a8
                     in
                       if length packet_data < 4 then Inl IndexError
                       else
                         let a10 = AList.update ''swivel''
                                     (VBool (packet_data ! 3 AND 0x20 \<noteq> 0)) a9
                         in
                           if length packet_data < 5 then Inl IndexError
                           else
                             let a11 = AList.update ''swirl''
                                         (VBool (packet_data ! 4 AND 0x01 \<noteq> 0)) a10
                             in Inr (AList.update ''unknown_data''
                                  (VBytes [packet_data ! 0 AND 0x02,
                                           0,
                                           0,
                                           packet_data ! 3 AND NOT 0x20,
                                           packet_data ! 4 AND NOT 0x01]) a11)))"

text \<open>
  \<^verbatim>\<open>recompose_packet\<close>. The loop concatenates the bytes of the frames;
  \<^verbatim>\<open>packet_data[-1]\<close> raises \<^verbatim>\<open>IndexError\<close> when there are none (and then also when
  there is no frame, so that \<^verbatim>\<open>packet_frames[0]\<close> is read on a non-empty list only).
  \<^verbatim>\<open>if last_end\<close> tests for \<^verbatim>\<open>None\<close>: a timestamp object is true.
\<close>

definition recompose_packet :: "byte_frame list \<Rightarrow> graph_time option \<Rightarrow> error + packet_frame" where
  "recompose_packet packet_frames last_end' =
     (let packet_data = foldl (\<lambda>acc frame. acc @ data frame) [] packet_frames in
      if packet_data = [] then Inl IndexError
      else
        let received_checksum = uint (last packet_data) in
        case checksum (butlast packet_data) of
          Inl e \<Rightarrow> Inl e
        | Inr calculated_checksum \<Rightarrow>
            if received_checksum \<noteq> calculated_checksum then
              Inr \<lparr>type = ''invalid_checksum'',
                   start_time = start_time (hd packet_frames),
                   end_time = end_time (last packet_frames),
                   data = [(''data'', VStr (bytes_hex packet_data))]\<rparr>
            else
              let packet_attributes =
                    [(''data'', VStr (bytes_hex (butlast packet_data))),
                     (''checksum'', VInt received_checksum)];
                  packet_distance =
                    (case last_end' of
                       Some t \<Rightarrow> start_time (hd packet_frames) - t
                     | None \<Rightarrow> GraphTimeDelta 30 0)
              in
                (case (if packet_distance < GraphTimeDelta 0 300
                       then annotate_hvac_packet packet_data packet_attributes
                       else annotate_panel_packet packet_data packet_attributes) of
                   Inl e \<Rightarrow> Inl e
                 | Inr annotated \<Rightarrow>
                     Inr \<lparr>type = ''valid_packet'',
                          start_time = start_time (hd packet_frames),
                          end_time = end_time (last packet_frames),
                          data = annotated\<rparr>))"

text \<open>
  \<^verbatim>\<open>Hla.decode\<close>. The result is the analyzer object after the call, together with the
  exception raised or the value returned (\<open>None\<close> for Python's \<^verbatim>\<open>None\<close>). When
  \<^verbatim>\<open>recompose_packet\<close> raises, the buffer has already been extended and neither it nor
  the anchor is reset.
\<close>

definition decode :: "Hla \<Rightarrow> byte_frame \<Rightarrow> Hla \<times> (error + packet_frame option)" where
  "decode self frame =
     (if type frame \<noteq> ''data'' then (self, Inr None)
      else
        let self1 = (if packet self \<noteq> [] \<and>
                        end_time frame - end_time (last (packet self)) > PACKETS_DISTANCE
                     then self\<lparr>packet := []\<rparr> else self);
            self2 = self1\<lparr>packet := packet self1 @ [frame]\<rparr>
        in
          if length (packet self2) = 6 then
            (case recompose_packet (packet self2) (last_end self2) of
               Inl e \<Rightarrow> (self2, Inl e)
             | Inr analyzed_frame \<Rightarrow>
                 (self2\<lparr>packet := [], last_end := Some (end_time analyzed_frame)\<rparr>,
                  Inr (Some analyzed_frame)))
          else (self2, Inr None))"

text \<open>
  The host calls \<^verbatim>\<open>decode\<close> once for every frame, in arrival order;
  \<open>decode_stream\<close> collects what the calls return or raise.
\<close>

fun decode_stream :: "Hla \<Rightarrow> byte_frame list \<Rightarrow> Hla \<times> (error + packet_frame option) list" where
  "decode_stream self [] = (self, [])"
| "decode_stream self (frame # frames) =
     (let (self', r) = decode self frame;
          (self'', rs) = decode_stream self' frames
      in (self'', r # rs))"

section \<open>Example streams\<close>

text \<open>
  A frame of the serial analyzer that carries one byte, and a run of such frames: one
  byte every 1000 picoseconds, each lasting 900.
\<close>

definition byte_event :: "u8 \<Rightarrow> graph_time \<Rightarrow> graph_time \<Rightarrow> byte_frame" where
  "byte_event b s e = \<lparr>type = ''data'', start_time = s, end_time = e, data = [b]\<rparr>"

fun byte_events :: "u8 list \<Rightarrow> graph_time \<Rightarrow> byte_frame list" where
  "byte_events [] t = []"
| "byte_events (b # bs) t = byte_event b t (t + 900) # byte_events bs (t + 1000)"

text \<open>A status packet of the panel: mode dH, fan speed high, checksum \<^verbatim>\<open>0x08\<close>.\<close>

definition panel_bytes :: "u8 list" where
  "panel_bytes = [0x10, 0x28, 0x25, 0x00, 0x00, 0x08]"

text \<open>The same packet with its last byte corrupted.\<close>

definition corrupt_bytes :: "u8 list" where
  "corrupt_bytes = [0x10, 0x28, 0x25, 0x00, 0x00, 0x09]"

text \<open>A reply of the indoor unit, checksum \<^verbatim>\<open>0x87\<close>.\<close>

definition unit_bytes :: "u8 list" where
  "unit_bytes = [0xAA, 0x28, 0x00, 0x00, 0x00, 0x87]"

text \<open>A status packet whose fan-speed code \<^verbatim>\<open>0x30\<close> is not in the table, checksum \<^verbatim>\<open>0x65\<close>.\<close>

definition fan_bytes :: "u8 list" where
  "fan_bytes = [0x00, 0x00, 0x30, 0x00, 0x00, 0x65]"

text \<open>A features inquiry whose bytes 1 to 3 are zero, checksum \<^verbatim>\<open>0xC5\<close>.\<close>

definition inquiry_bytes :: "u8 list" where
  "inquiry_bytes = [0x90, 0x00, 0x00, 0x00, 0x00, 0xC5]"

text \<open>
  An analyzer with one buffered byte that ended at 900 picoseconds, and a next byte
  that starts at the inter-byte distance (one second) and lasts 1000 picoseconds: it
  starts less than the distance after the buffered byte ended, and ends more than the
  distance after it.
\<close>

definition late_state :: Hla where
  "late_state = \<lparr>last_start = None, last_end = None, packet = [byte_event 0xFF 0 900]\<rparr>"

definition late_event :: byte_frame where
  "late_event = byte_event 0x10 PACKETS_DISTANCE (PACKETS_DISTANCE + 1000)"

section \<open>Auxiliary facts\<close>

lemma foldl_data:
  "foldl (\<lambda>acc frame. acc @ data frame) acc fs = acc @ concat (map data fs)"
  by (induction fs arbitrary: acc) simp_all

lemma foldl_plus: "foldl (+) (a::int) xs = a + sum_list xs"
  by (induction xs arbitrary: a) simp_all

lemma and_255: "(x::int) AND 0xFF = x mod 256"
proof -
  have m: "(mask 8 :: int) = 0xFF" by (simp add: mask_eq_exp_minus_1)
  have "x AND mask 8 = x mod 2 ^ 8"
    by (simp only: take_bit_eq_mod flip: take_bit_eq_mask)
  then show ?thesis unfolding m by simp
qed

text \<open>The checksum of the source is the sum modulo 256, masked with \<^verbatim>\<open>0x55\<close>.\<close>

lemma checksum_eq:
  "pkt \<noteq> [] \<Longrightarrow> checksum pkt = Inr ((sum_list (map uint pkt) mod 256) XOR 0x55)"
  by (cases pkt) (simp_all add: checksum_def foldl_plus and_255)

text \<open>What \<open>recompose_packet\<close> does with six frames of one byte each.\<close>

lemma recompose_bytes:
  assumes "map data fs = [[b0], [b1], [b2], [b3], [b4], [b5]]"
  shows "recompose_packet fs le =
    (if uint b5 \<noteq> (sum_list (map uint [b0, b1, b2, b3, b4]) mod 256) XOR 0x55
     then Inr \<lparr>type = ''invalid_checksum'', start_time = start_time (hd fs),
               end_time = end_time (last fs),
               data = [(''data'', VStr (bytes_hex [b0, b1, b2, b3, b4, b5]))]\<rparr>
     else map_sum id (\<lambda>a. \<lparr>type = ''valid_packet'', start_time = start_time (hd fs),
               end_time = end_time (last fs), data = a\<rparr>)
            ((if (case le of Some t \<Rightarrow> start_time (hd fs) - t | None \<Rightarrow> GraphTimeDelta 30 0)
                  < GraphTimeDelta 0 300
              then annotate_hvac_packet else annotate_panel_packet)
               [b0, b1, b2, b3, b4, b5]
               [(''data'', VStr (bytes_hex [b0, b1, b2, b3, b4])),
                (''checksum'', VInt (uint b5))]))"
proof -
  have pd: "foldl (\<lambda>acc frame. acc @ data frame) [] fs = [b0, b1, b2, b3, b4, b5]"
    using assms by (simp add: foldl_data)
  have cs: "checksum [b0, b1, b2, b3, b4] =
      Inr ((sum_list (map uint [b0, b1, b2, b3, b4]) mod 256) XOR 0x55)"
    by (rule checksum_eq) simp
  show ?thesis
    unfolding recompose_packet_def pd Let_def
    by (simp add: cs split: sum.splits)
qed

lemma annotate_hvac_source:
  "annotate_hvac_packet pd a = Inr a' \<Longrightarrow> map_of a' ''source'' = Some (VStr ''HVAC'')"
  by (auto simp: annotate_hvac_packet_def Let_def update_conv' split: if_splits)

lemma annotate_panel_source:
  "annotate_panel_packet pd a = Inr a' \<Longrightarrow> map_of a' ''source'' = Some (VStr ''Panel'')"
  by (auto simp: annotate_panel_packet_def Let_def update_conv' split: if_splits option.splits)

text \<open>The three ways in which \<open>recompose_packet\<close> returns a frame.\<close>

lemma recompose_cases:
  assumes "recompose_packet fs le = Inr rec"
  obtains (invalid) "type rec = ''invalid_checksum''"
      "start_time rec = start_time (hd fs)" "end_time rec = end_time (last fs)"
    | (hvac) a where "rec = \<lparr>type = ''valid_packet'', start_time = start_time (hd fs),
               end_time = end_time (last fs), data = a\<rparr>"
       "(case le of Some t \<Rightarrow> start_time (hd fs) - t | None \<Rightarrow> GraphTimeDelta 30 0)
          < GraphTimeDelta 0 300"
       "map_of a ''source'' = Some (VStr ''HVAC'')"
    | (panel) a where "rec = \<lparr>type = ''valid_packet'', start_time = start_time (hd fs),
               end_time = end_time (last fs), data = a\<rparr>"
       "\<not> (case le of Some t \<Rightarrow> start_time (hd fs) - t | None \<Rightarrow> GraphTimeDelta 30 0)
          < GraphTimeDelta 0 300"
       "map_of a ''source'' = Some (VStr ''Panel'')"
  using assms unfolding recompose_packet_def Let_def
  by (auto split: if_splits sum.splits dest: annotate_hvac_source annotate_panel_source)

text \<open>A call of \<open>decode\<close> returns a frame only when it completes a buffer of five.\<close>

lemma decode_emits:
  assumes "decode self frame = (self', Inr (Some rec))"
  shows "length (packet self) = 5"
    and "recompose_packet (packet self @ [frame]) (last_end self) = Inr rec"
    and "self' = self\<lparr>packet := [], last_end := Some (end_time rec)\<rparr>"
  using assms unfolding decode_def Let_def
  by (auto split: if_splits sum.splits)

lemma length_five:
  "length xs = 5 \<Longrightarrow> \<exists>a b c d e. xs = [a, b, c, d, e]"
  by (auto simp: length_Suc_conv numeral_eq_Suc)

lemma bit7_mask: "(w :: u8) AND 0x80 = 0 \<longleftrightarrow> \<not> bit w 7"
proof -
  have "(0x80 :: u8) = 2 ^ 7" by simp
  then show ?thesis by (simp only: and_exp_eq_0_iff_not_bit)
qed

lemmas example_defs =
  byte_event_def panel_bytes_def corrupt_bytes_def unit_bytes_def fan_bytes_def
  inquiry_bytes_def late_state_def late_event_def

lemmas analyzer_defs =
  recompose_packet_def checksum_def annotate_panel_packet_def annotate_hvac_packet_def
  GraphTimeDelta_def FAN_SPEED_def MODE_def Let_def decode_def Hla_init_def
  PACKETS_DISTANCE_def

section \<open>Checksum validation and the fan-speed table\<close>

text \<open>
  Claim C1: a completed six-byte packet is emitted as a valid packet if and only if its
  sixth byte is the sum of the first five modulo 256, xor \<^verbatim>\<open>0x55\<close>. The test of the
  checksum is as the claim says (\<open>checksum_eq\<close>, \<open>recompose_bytes\<close>), but a packet that
  passes it is not always emitted: for the status packet \<^verbatim>\<open>00 00 30 00 00 65\<close>, received
  with no earlier packet, the sixth byte is the checksum of the first five and
  \<open>recompose_packet\<close> raises \<^verbatim>\<open>KeyError\<close> in the lookup of the fan speed, so that no
  frame is returned at all.
\<close>

theorem checksum_match_not_emitted:
  "uint (fan_bytes ! 5) = (sum_list (map uint (take 5 fan_bytes)) mod 256) XOR 0x55
   \<and> recompose_packet (byte_events fan_bytes 0) None = Inl KeyError"
  by (simp add: example_defs analyzer_defs)

text \<open>
  Claim C3: processing a stream never raises and never stops consuming it; a
  panel status packet with a fan-speed code outside the table still yields a record.
  In the source the code \<^verbatim>\<open>0x30\<close> makes the sixth call of \<open>decode\<close> raise
  \<^verbatim>\<open>KeyError\<close>. The buffer keeps its six frames, so the frames of a well-formed
  packet that follow within the inter-byte distance only make it longer: none of the
  next six calls returns a record.
\<close>

theorem fan_speed_aborts_stream:
  "decode_stream Hla_init (byte_events fan_bytes 0) =
     (Hla_init\<lparr>packet := byte_events fan_bytes 0\<rparr>,
      [Inr None, Inr None, Inr None, Inr None, Inr None, Inl KeyError])
   \<and> snd (decode_stream Hla_init (byte_events fan_bytes 0 @ byte_events panel_bytes 10000)) =
      [Inr None, Inr None, Inr None, Inr None, Inr None, Inl KeyError,
       Inr None, Inr None, Inr None, Inr None, Inr None, Inr None]"
  by (simp add: example_defs analyzer_defs)

section \<open>The features inquiry\<close>

text \<open>
  The test of the features inquiry compares at most three bytes with four: it never
  fails, whatever the packet.
\<close>

lemma inquiry_always_records:
  assumes "packet_data \<noteq> []" and "packet_data ! 0 AND 0x90 = 0x90"
  shows "annotate_panel_packet packet_data packet_attributes =
    Inr (AList.update ''unknown_data'' (VBytes (0 # take 3 (drop 1 packet_data)))
          (AList.update ''features_inquiry'' (VBool True)
            (AList.update ''source'' (VStr ''Panel'') packet_attributes)))"
proof -
  have "length (take 3 (drop 1 packet_data)) \<noteq> length [0, 0, 0, 0 :: u8]"
    by simp
  then have "take 3 (drop 1 packet_data) \<noteq> [0, 0, 0, 0]"
    by metis
  with assms show ?thesis
    by (simp add: annotate_panel_packet_def Let_def)
qed

text \<open>
  Claim C5: for a features inquiry of the panel, \<open>features_inquiry\<close> is set, no unknown
  bits are recorded when bytes 1 to 3 are all zero, and otherwise they are
  \<open>[0, p[1], p[2], p[3]]\<close>. The source compares the three bytes with a constant of
  four zero bytes, which they never equal: for the inquiry \<^verbatim>\<open>90 00 00 00 00 c5\<close> the
  record carries the unknown bits \<open>[0, 0, 0, 0]\<close>.
\<close>

theorem zero_inquiry_records_unknown_data:
  "recompose_packet (byte_events inquiry_bytes 0) None =
     Inr \<lparr>type = ''valid_packet'', start_time = 0, end_time = 5900,
          data = [(''data'', VStr ''9000000000''), (''checksum'', VInt 0xC5),
                  (''source'', VStr ''Panel''), (''features_inquiry'', VBool True),
                  (''unknown_data'', VBytes [0, 0, 0, 0])]\<rparr>"
  by (simp add: example_defs analyzer_defs bytes_hex_def hexdigit_def)

section \<open>The source classifier\<close>

text \<open>
  Claim C2: for a packet whose checksum is valid, a gap below 300 ms selects the decoder
  of the indoor unit, a gap of 300 ms or more selects the decoder of the panel, and
  without an anchor the gap is 30 seconds, so the panel decoder is selected. The gap is
  the start of the first byte minus the anchor. Whatever the selected decoder returns,
  the attribute dictionary or the exception, is what \<open>recompose_packet\<close> returns; a
  missing anchor behaves as an anchor 30 seconds before the packet.
\<close>

theorem classifier_selects_decoder:
  assumes "map data fs = [[b0], [b1], [b2], [b3], [b4], [b5]]"
    and "uint b5 = (sum_list (map uint [b0, b1, b2, b3, b4]) mod 256) XOR 0x55"
  shows "(start_time (hd fs) - t < 300 * 10 ^ 9 \<longrightarrow>
            map_sum id data (recompose_packet fs (Some t)) =
              annotate_hvac_packet [b0, b1, b2, b3, b4, b5]
                [(''data'', VStr (bytes_hex [b0, b1, b2, b3, b4])),
                 (''checksum'', VInt (uint b5))])
       \<and> (300 * 10 ^ 9 \<le> start_time (hd fs) - t \<longrightarrow>
            map_sum id data (recompose_packet fs (Some t)) =
              annotate_panel_packet [b0, b1, b2, b3, b4, b5]
                [(''data'', VStr (bytes_hex [b0, b1, b2, b3, b4])),
                 (''checksum'', VInt (uint b5))])
       \<and> map_sum id data (recompose_packet fs None) =
            annotate_panel_packet [b0, b1, b2, b3, b4, b5]
              [(''data'', VStr (bytes_hex [b0, b1, b2, b3, b4])),
               (''checksum'', VInt (uint b5))]
       \<and> recompose_packet fs None = recompose_packet fs (Some (start_time (hd fs) - 30 * 10 ^ 12))"
proof -
  have ms: "GraphTimeDelta 0 300 = 300 * 10 ^ 9" and s: "GraphTimeDelta 30 0 = 30 * 10 ^ 12"
    by (simp_all add: GraphTimeDelta_def)
  have id: "map_sum id data (map_sum id (\<lambda>a. \<lparr>type = ''valid_packet'',
      start_time = start_time (hd fs), end_time = end_time (last fs), data = a\<rparr>) r) = r"
    for r :: "error + attrs"
    by (cases r) simp_all
  show ?thesis
    unfolding recompose_bytes [OF assms(1)] ms s
    using assms(2) by (simp add: id)
qed

theorem classifier_selects_decoder_witness:
  "map data (byte_events unit_bytes 1000) = [[0xAA], [0x28], [0x00], [0x00], [0x00], [0x87]]
   \<and> uint (0x87 :: u8) = (sum_list (map uint [0xAA, 0x28, 0x00, 0x00, 0x00 :: u8]) mod 256) XOR 0x55
   \<and> start_time (hd (byte_events unit_bytes 1000)) - 0 < 300 * 10 ^ 9
   \<and> map_sum id data (recompose_packet (byte_events unit_bytes 1000) (Some 0)) =
        Inr [(''data'', VStr ''aa28000000''), (''checksum'', VInt 0x87),
             (''source'', VStr ''HVAC''), (''room_temperature'', VFloat 30),
             (''unknown_data'', VBytes [0xAA, 0, 0, 0, 0])]
   \<and> 300 * 10 ^ 9 \<le> start_time (hd (byte_events unit_bytes 1000)) - (- 299999999000)
   \<and> map_sum id data (recompose_packet (byte_events unit_bytes 1000) (Some (- 299999999000))) =
        annotate_panel_packet [0xAA, 0x28, 0x00, 0x00, 0x00, 0x87]
          [(''data'', VStr ''aa28000000''), (''checksum'', VInt 0x87)]
   \<and> map_sum id data (recompose_packet (byte_events unit_bytes 1000) None) =
        annotate_panel_packet [0xAA, 0x28, 0x00, 0x00, 0x00, 0x87]
          [(''data'', VStr ''aa28000000''), (''checksum'', VInt 0x87)]"
proof -
  have h1: "map data (byte_events unit_bytes 1000) =
      [[0xAA], [0x28], [0x00], [0x00], [0x00], [0x87]]"
    by (simp add: example_defs)
  have h2: "uint (0x87 :: u8) =
      (sum_list (map uint [0xAA, 0x28, 0x00, 0x00, 0x00 :: u8]) mod 256) XOR 0x55"
    by simp
  have st: "start_time (hd (byte_events unit_bytes 1000)) = 1000"
    by (simp add: example_defs)
  have hx: "bytes_hex [0xAA, 0x28, 0x00, 0x00, 0x00] = ''aa28000000''"
    by (simp add: bytes_hex_def hexdigit_def)
  have hv: "annotate_hvac_packet [0xAA, 0x28, 0x00, 0x00, 0x00, 0x87]
      [(''data'', VStr ''aa28000000''), (''checksum'', VInt 0x87)] =
      Inr [(''data'', VStr ''aa28000000''), (''checksum'', VInt 0x87),
           (''source'', VStr ''HVAC''), (''room_temperature'', VFloat 30),
           (''unknown_data'', VBytes [0xAA, 0, 0, 0, 0])]"
    by (simp add: annotate_hvac_packet_def temperature_def)
  from classifier_selects_decoder [OF h1 h2, of 0]
    classifier_selects_decoder [OF h1 h2, of "- 299999999000"]
  show ?thesis
    using h1 h2 by (simp add: st hx hv)
qed

text \<open>
  Claim C9: the source of every valid-packet record is one of two labels, that of the
  indoor unit (the string \<^verbatim>\<open>HVAC\<close> in the source) when the gap is below 300 ms and
  \<^verbatim>\<open>Panel\<close> otherwise.
\<close>

theorem source_label:
  assumes "recompose_packet fs le = Inr rec" and "type rec = ''valid_packet''"
  shows "map_of (data rec) ''source'' =
    Some (VStr (if (case le of Some t \<Rightarrow> start_time (hd fs) - t | None \<Rightarrow> 30 * 10 ^ 12)
                     < 300 * 10 ^ 9
                then ''HVAC'' else ''Panel''))"
proof -
  have ms: "GraphTimeDelta 0 300 = 300 * 10 ^ 9" and s: "GraphTimeDelta 30 0 = 30 * 10 ^ 12"
    by (simp_all add: GraphTimeDelta_def)
  from assms(1) show ?thesis
  proof (cases rule: recompose_cases)
    case invalid
    with assms(2) show ?thesis by simp
  next
    case (hvac a)
    then show ?thesis unfolding ms s by simp
  next
    case (panel a)
    then show ?thesis unfolding ms s by simp
  qed
qed

theorem source_label_witness:
  "recompose_packet (byte_events unit_bytes 1000) (Some 0) =
     Inr \<lparr>type = ''valid_packet'', start_time = 1000, end_time = 6900,
          data = [(''data'', VStr ''aa28000000''), (''checksum'', VInt 0x87),
                  (''source'', VStr ''HVAC''), (''room_temperature'', VFloat 30),
                  (''unknown_data'', VBytes [0xAA, 0, 0, 0, 0])]\<rparr>
   \<and> map_of (data (projr (recompose_packet (byte_events unit_bytes 1000) (Some 0)))) ''source'' =
       Some (VStr ''HVAC'')
   \<and> type (projr (recompose_packet (byte_events panel_bytes 0) None)) = ''valid_packet''
   \<and> map_of (data (projr (recompose_packet (byte_events panel_bytes 0) None))) ''source'' =
       Some (VStr ''Panel'')"
proof -
  have u: "recompose_packet (byte_events unit_bytes 1000) (Some 0) =
     Inr \<lparr>type = ''valid_packet'', start_time = 1000, end_time = 6900,
          data = [(''data'', VStr ''aa28000000''), (''checksum'', VInt 0x87),
                  (''source'', VStr ''HVAC''), (''room_temperature'', VFloat 30),
                  (''unknown_data'', VBytes [0xAA, 0, 0, 0, 0])]\<rparr>"
    by (simp add: example_defs analyzer_defs bytes_hex_def hexdigit_def temperature_def)
  obtain r where p: "recompose_packet (byte_events panel_bytes 0) None = Inr r"
    and t: "type r = ''valid_packet''"
    by (simp add: example_defs analyzer_defs)
  have st: "start_time (hd (byte_events unit_bytes 1000)) = 1000"
    by (simp add: example_defs)
  from source_label [OF u] source_label [OF p t]
  show ?thesis unfolding u p st using t by simp
qed

section \<open>Invalid checksums\<close>

text \<open>
  Claim C8: a completed six-byte packet that fails the checksum is emitted as an
  invalid-checksum record whose hexadecimal text renders all six bytes; the record has
  no source and no decoded field: its dictionary has the one entry \<^verbatim>\<open>data\<close>.
\<close>

theorem invalid_checksum_record:
  assumes "map data fs = [[b0], [b1], [b2], [b3], [b4], [b5]]"
    and "uint b5 \<noteq> (sum_list (map uint [b0, b1, b2, b3, b4]) mod 256) XOR 0x55"
  shows "recompose_packet fs le =
    Inr \<lparr>type = ''invalid_checksum'',
         start_time = start_time (hd fs),
         end_time = end_time (last fs),
         data = [(''data'', VStr
           [hexdigit (unat b0 div 16), hexdigit (unat b0 mod 16),
            hexdigit (unat b1 div 16), hexdigit (unat b1 mod 16),
            hexdigit (unat b2 div 16), hexdigit (unat b2 mod 16),
            hexdigit (unat b3 div 16), hexdigit (unat b3 mod 16),
            hexdigit (unat b4 div 16), hexdigit (unat b4 mod 16),
            hexdigit (unat b5 div 16), hexdigit (unat b5 mod 16)])]\<rparr>"
  unfolding recompose_bytes [OF assms(1)]
  using assms(2) by (simp add: bytes_hex_def)

theorem invalid_checksum_record_witness:
  "map data (byte_events corrupt_bytes 0) = [[0x10], [0x28], [0x25], [0x00], [0x00], [0x09]]
   \<and> uint (0x09 :: u8) \<noteq> (sum_list (map uint [0x10, 0x28, 0x25, 0x00, 0x00 :: u8]) mod 256) XOR 0x55
   \<and> recompose_packet (byte_events corrupt_bytes 0) None =
       Inr \<lparr>type = ''invalid_checksum'', start_time = 0, end_time = 5900,
            data = [(''data'', VStr ''102825000009'')]\<rparr>"
proof -
  have h1: "map data (byte_events corrupt_bytes 0) =
      [[0x10], [0x28], [0x25], [0x00], [0x00], [0x09]]"
    by (simp add: example_defs)
  have h2: "uint (0x09 :: u8) \<noteq>
      (sum_list (map uint [0x10, 0x28, 0x25, 0x00, 0x00 :: u8]) mod 256) XOR 0x55"
    by simp
  have st: "start_time (hd (byte_events corrupt_bytes 0)) = 0"
    and en: "end_time (last (byte_events corrupt_bytes 0)) = 5900"
    by (simp_all add: example_defs)
  from invalid_checksum_record [OF h1 h2, of None]
  show ?thesis
    using h1 h2 by (simp add: st en hexdigit_def)
qed

section \<open>Emitted records and the anchor\<close>

text \<open>
  Claim C6: after a completed six-byte packet is emitted, the anchor \<open>last_end\<close> is the end
  time of the emitted record, for a valid packet and for an invalid-checksum record
  alike.
\<close>

theorem anchor_advances:
  assumes "decode self frame = (self', Inr (Some rec))"
  shows "last_end self' = Some (end_time rec)
       \<and> packet self' = []
       \<and> (type rec = ''valid_packet'' \<or> type rec = ''invalid_checksum'')"
proof -
  from decode_emits [OF assms]
  have r: "recompose_packet (packet self @ [frame]) (last_end self) = Inr rec"
    and s: "self' = self\<lparr>packet := [], last_end := Some (end_time rec)\<rparr>"
    by simp_all
  from r have "type rec = ''valid_packet'' \<or> type rec = ''invalid_checksum''"
    by (cases rule: recompose_cases) simp_all
  with s show ?thesis by simp
qed

theorem anchor_advances_witness:
  "decode (Hla_init\<lparr>packet := byte_events (take 5 corrupt_bytes) 0\<rparr>) (byte_event 0x09 5000 5900) =
     (Hla_init\<lparr>last_end := Some 5900\<rparr>,
      Inr (Some \<lparr>type = ''invalid_checksum'', start_time = 0, end_time = 5900,
                 data = [(''data'', VStr ''102825000009'')]\<rparr>))
   \<and> last_end (Hla_init\<lparr>last_end := Some 5900\<rparr>) = Some 5900
   \<and> map_sum id (map_option type)
         (snd (decode (Hla_init\<lparr>packet := byte_events (take 5 panel_bytes) 0\<rparr>)
           (byte_event 0x08 5000 5900))) = Inr (Some ''valid_packet'')
   \<and> last_end (fst (decode (Hla_init\<lparr>packet := byte_events (take 5 panel_bytes) 0\<rparr>)
        (byte_event 0x08 5000 5900))) = Some 5900"
proof -
  have c: "decode (Hla_init\<lparr>packet := byte_events (take 5 corrupt_bytes) 0\<rparr>)
      (byte_event 0x09 5000 5900) =
     (Hla_init\<lparr>last_end := Some 5900\<rparr>,
      Inr (Some \<lparr>type = ''invalid_checksum'', start_time = 0, end_time = 5900,
                 data = [(''data'', VStr ''102825000009'')]\<rparr>))"
    by (simp add: example_defs analyzer_defs bytes_hex_def hexdigit_def)
  obtain s r where p: "decode (Hla_init\<lparr>packet := byte_events (take 5 panel_bytes) 0\<rparr>)
      (byte_event 0x08 5000 5900) = (s, Inr (Some r))"
    and t: "type r = ''valid_packet''" and e: "end_time r = 5900"
    by (simp add: example_defs analyzer_defs)
  from anchor_advances [OF c] anchor_advances [OF p]
  show ?thesis unfolding c p using t e by simp
qed

text \<open>
  Claim C10: every emitted record, valid or not, starts where the first of the six
  buffered byte events starts and ends where the sixth ends. A call of \<open>decode\<close> that
  returns a record had five events in the buffer and was given the sixth.
\<close>

theorem emitted_record_times:
  assumes "decode self frame = (self', Inr (Some rec))"
  shows "\<exists>f0 f1 f2 f3 f4.
      packet self = [f0, f1, f2, f3, f4]
    \<and> recompose_packet [f0, f1, f2, f3, f4, frame] (last_end self) = Inr rec
    \<and> start_time rec = start_time f0
    \<and> end_time rec = end_time frame"
proof -
  from decode_emits [OF assms]
  have l: "length (packet self) = 5"
    and r: "recompose_packet (packet self @ [frame]) (last_end self) = Inr rec"
    by simp_all
  from length_five [OF l] obtain f0 f1 f2 f3 f4 where b: "packet self = [f0, f1, f2, f3, f4]"
    by blast
  from r have "start_time rec = start_time (hd (packet self @ [frame]))
      \<and> end_time rec = end_time (last (packet self @ [frame]))"
    by (cases rule: recompose_cases) simp_all
  with b r show ?thesis by simp
qed

theorem emitted_record_times_witness:
  "decode (Hla_init\<lparr>last_end := Some 5900, packet := byte_events (take 5 unit_bytes) 7000\<rparr>) (byte_event 0x87 12000 12900) =
     (Hla_init\<lparr>last_end := Some 12900\<rparr>,
      Inr (Some \<lparr>type = ''valid_packet'', start_time = 7000, end_time = 12900,
                 data = [(''data'', VStr ''aa28000000''), (''checksum'', VInt 0x87),
                         (''source'', VStr ''HVAC''), (''room_temperature'', VFloat 30),
                         (''unknown_data'', VBytes [0xAA, 0, 0, 0, 0])]\<rparr>))
   \<and> start_time (hd (byte_events (take 5 unit_bytes) 7000)) = 7000
   \<and> end_time (byte_event 0x87 12000 12900) = 12900"
proof -
  have d: "decode (Hla_init\<lparr>last_end := Some 5900, packet := byte_events (take 5 unit_bytes) 7000\<rparr>)
      (byte_event 0x87 12000 12900) =
     (Hla_init\<lparr>last_end := Some 12900\<rparr>,
      Inr (Some \<lparr>type = ''valid_packet'', start_time = 7000, end_time = 12900,
                 data = [(''data'', VStr ''aa28000000''), (''checksum'', VInt 0x87),
                         (''source'', VStr ''HVAC''), (''room_temperature'', VFloat 30),
                         (''unknown_data'', VBytes [0xAA, 0, 0, 0, 0])]\<rparr>))"
    by (simp add: example_defs analyzer_defs bytes_hex_def hexdigit_def temperature_def)
  from emitted_record_times [OF d]
  show ?thesis unfolding d by (simp add: example_defs)
qed

section \<open>The decoder of the indoor unit\<close>

text \<open>
  Claim C7: for a payload \<open>p\<close> decoded as a reply of the indoor unit, if bit 7 of \<open>p[1]\<close>
  is clear the room temperature is \<open>p[1] / 2 + 10\<close> and the unknown bits are
  \<open>(p[0], 0, p[2], p[3], p[4])\<close>; if it is set no room temperature is reported and the
  unknown bits are \<open>(p[0], p[1], p[2], p[3], p[4])\<close>. The dictionary handed to the
  decoder holds no room temperature yet, as the one \<open>recompose_packet\<close> builds.
\<close>

theorem unit_decoder_fields:
  assumes "map_of packet_attributes ''room_temperature'' = None"
  shows "\<exists>a. annotate_hvac_packet (p0 # p1 # p2 # p3 # p4 # rest) packet_attributes = Inr a
    \<and> map_of a ''room_temperature'' =
        (if bit p1 7 then None else Some (VFloat (of_int (uint p1) / 2 + 10)))
    \<and> map_of a ''unknown_data'' =
        Some (VBytes (if bit p1 7 then [p0, p1, p2, p3, p4] else [p0, 0, p2, p3, p4]))"
  using assms
  by (simp add: annotate_hvac_packet_def Let_def update_conv' bit7_mask temperature_def)

theorem unit_decoder_fields_witness:
  "map_of [(''data'', VStr ''aa28000000''), (''checksum'', VInt 0x87)] ''room_temperature'' = None
   \<and> \<not> bit (0x28 :: u8) 7
   \<and> annotate_hvac_packet unit_bytes [(''data'', VStr ''aa28000000''), (''checksum'', VInt 0x87)] =
       Inr [(''data'', VStr ''aa28000000''), (''checksum'', VInt 0x87),
            (''source'', VStr ''HVAC''), (''room_temperature'', VFloat 30),
            (''unknown_data'', VBytes [0xAA, 0, 0, 0, 0])]
   \<and> bit (0xA8 :: u8) 7
   \<and> annotate_hvac_packet [0xAA, 0xA8, 0x01, 0x02, 0x03, 0x0D]
         [(''data'', VStr ''aaa8010203''), (''checksum'', VInt 0x0D)] =
       Inr [(''data'', VStr ''aaa8010203''), (''checksum'', VInt 0x0D),
            (''source'', VStr ''HVAC''),
            (''unknown_data'', VBytes [0xAA, 0xA8, 0x01, 0x02, 0x03])]"
proof -
  have h1: "map_of [(''data'', VStr ''aa28000000''), (''checksum'', VInt 0x87)]
      ''room_temperature'' = None"
    by simp
  have h2: "map_of [(''data'', VStr ''aaa8010203''), (''checksum'', VInt 0x0D)]
      ''room_temperature'' = None"
    by simp
  have b1: "\<not> bit (0x28 :: u8) 7" and b2: "bit (0xA8 :: u8) 7"
    by (simp_all add: bit7_mask [symmetric])
  have e1: "annotate_hvac_packet unit_bytes
      [(''data'', VStr ''aa28000000''), (''checksum'', VInt 0x87)] =
       Inr [(''data'', VStr ''aa28000000''), (''checksum'', VInt 0x87),
            (''source'', VStr ''HVAC''), (''room_temperature'', VFloat 30),
            (''unknown_data'', VBytes [0xAA, 0, 0, 0, 0])]"
    by (simp add: unit_bytes_def annotate_hvac_packet_def temperature_def)
  have e2: "annotate_hvac_packet [0xAA, 0xA8, 0x01, 0x02, 0x03, 0x0D]
         [(''data'', VStr ''aaa8010203''), (''checksum'', VInt 0x0D)] =
       Inr [(''data'', VStr ''aaa8010203''), (''checksum'', VInt 0x0D),
            (''source'', VStr ''HVAC''),
            (''unknown_data'', VBytes [0xAA, 0xA8, 0x01, 0x02, 0x03])]"
    by (simp add: annotate_hvac_packet_def temperature_def)
  from unit_decoder_fields [OF h1, of "0xAA" "0x28" 0 0 0 "[0x87]"]
    unit_decoder_fields [OF h2, of "0xAA" "0xA8" 1 2 3 "[0x0D]"]
  show ?thesis
    using h1 b1 b2 e1 e2 by simp
qed

section \<open>The inter-byte distance\<close>

text \<open>
  Claim C4 says that, with a non-empty buffer, the buffered bytes are discarded when the
  start of the new event minus the end of the last buffered event exceeds the
  threshold, and that otherwise the buffer is retained and the event appended. The
  source measures from the end of the last buffered event to the end of the new one.
  With one byte buffered that ended at 900, an event that starts at the threshold and
  ends 1000 picoseconds later starts less than the threshold after that byte and ends
  more than the threshold after it: the buffer is discarded.
\<close>

theorem start_gap_counterexample:
  "type late_event = ''data''
   \<and> packet late_state \<noteq> []
   \<and> \<not> (PACKETS_DISTANCE < start_time late_event - end_time (last (packet late_state)))
   \<and> packet (fst (decode late_state late_event)) = [late_event]
   \<and> packet (fst (decode late_state late_event)) \<noteq> packet late_state @ [late_event]"
  by (simp add: example_defs analyzer_defs)

text \<open>
  Claim C4, amended: for every byte event ingested while the buffer is non-empty, if
  the end time of the event minus the end time of the last buffered event exceeds the
  threshold, the buffered bytes are discarded, no record is emitted for them, and the
  analyzer goes on exactly as from an empty buffer, so that they appear in no later
  packet; otherwise the buffer is retained and the event appended, and the buffer so
  extended is what the completion test and \<open>recompose_packet\<close> see.
\<close>

theorem end_gap_reset:
  assumes "type frame = ''data''" and "packet self \<noteq> []"
  shows "(PACKETS_DISTANCE < end_time frame - end_time (last (packet self)) \<longrightarrow>
            decode self frame = (self\<lparr>packet := [frame]\<rparr>, Inr None)
          \<and> decode_stream self (frame # frames) =
              decode_stream (self\<lparr>packet := []\<rparr>) (frame # frames))
       \<and> (end_time frame - end_time (last (packet self)) \<le> PACKETS_DISTANCE \<longrightarrow>
            decode self frame =
              (if length (packet self @ [frame]) = 6 then
                 (case recompose_packet (packet self @ [frame]) (last_end self) of
                    Inl e \<Rightarrow> (self\<lparr>packet := packet self @ [frame]\<rparr>, Inl e)
                  | Inr analyzed_frame \<Rightarrow>
                      (self\<lparr>packet := [], last_end := Some (end_time analyzed_frame)\<rparr>,
                       Inr (Some analyzed_frame)))
               else (self\<lparr>packet := packet self @ [frame]\<rparr>, Inr None)))"
proof -
  have reset: "decode self frame = (self\<lparr>packet := [frame]\<rparr>, Inr None)"
    and same: "decode self frame = decode (self\<lparr>packet := []\<rparr>) frame"
    if "PACKETS_DISTANCE < end_time frame - end_time (last (packet self))"
    using that assms by (simp_all add: decode_def Let_def)
  have keep: "decode self frame =
      (if length (packet self @ [frame]) = 6 then
         (case recompose_packet (packet self @ [frame]) (last_end self) of
            Inl e \<Rightarrow> (self\<lparr>packet := packet self @ [frame]\<rparr>, Inl e)
          | Inr analyzed_frame \<Rightarrow>
              (self\<lparr>packet := [], last_end := Some (end_time analyzed_frame)\<rparr>,
               Inr (Some analyzed_frame)))
       else (self\<lparr>packet := packet self @ [frame]\<rparr>, Inr None))"
    if "end_time frame - end_time (last (packet self)) \<le> PACKETS_DISTANCE"
    using that assms by (simp add: decode_def Let_def split: sum.splits)
  show ?thesis
    using reset same keep by simp
qed

theorem end_gap_reset_witness:
  "type late_event = ''data''
   \<and> packet late_state \<noteq> []
   \<and> PACKETS_DISTANCE < end_time late_event - end_time (last (packet late_state))
   \<and> decode late_state late_event = (late_state\<lparr>packet := [late_event]\<rparr>, Inr None)
   \<and> snd (decode_stream late_state (late_event # byte_events (tl panel_bytes) (10 ^ 12 + 2000))) =
       [Inr None, Inr None, Inr None, Inr None, Inr None,
        Inr (Some \<lparr>type = ''valid_packet'', start_time = 1000000000000,
                   end_time = 1000000006900,
                   data = [(''data'', VStr ''1028250000''), (''checksum'', VInt 8),
                           (''source'', VStr ''Panel''), (''mode'', VStr ''dH''),
                           (''resistor?'', VBool False), (''running'', VBool False),
                           (''settings_changed'', VBool False),
                           (''room_temperature'', VFloat 30), (''plasma'', VBool False),
                           (''fan_speed'', VStr ''high''),
                           (''set_temperature'', VStr ''21''), (''swivel'', VBool False),
                           (''swirl'', VBool False),
                           (''unknown_data'', VBytes [0, 0, 0, 0, 0])]\<rparr>)]
   \<and> type (byte_event 0x28 1000 1900) = ''data''
   \<and> end_time (byte_event 0x28 1000 1900) - end_time (last (packet late_state)) \<le> PACKETS_DISTANCE
   \<and> decode late_state (byte_event 0x28 1000 1900) =
       (late_state\<lparr>packet := [byte_event 0xFF 0 900, byte_event 0x28 1000 1900]\<rparr>, Inr None)"
proof -
  have h1: "type late_event = ''data''" and h2: "packet late_state \<noteq> []"
    and h3: "type (byte_event 0x28 1000 1900) = ''data''"
    by (simp_all add: example_defs)
  have g1: "PACKETS_DISTANCE < end_time late_event - end_time (last (packet late_state))"
    and g2: "end_time (byte_event 0x28 1000 1900) - end_time (last (packet late_state))
      \<le> PACKETS_DISTANCE"
    by (simp_all add: example_defs PACKETS_DISTANCE_def GraphTimeDelta_def)
  have p: "packet late_state @ [byte_event 0x28 1000 1900] =
      [byte_event 0xFF 0 900, byte_event 0x28 1000 1900]"
    by (simp add: late_state_def)
  have s: "snd (decode_stream (late_state\<lparr>packet := []\<rparr>)
      (late_event # byte_events (tl panel_bytes) (10 ^ 12 + 2000))) =
       [Inr None, Inr None, Inr None, Inr None, Inr None,
        Inr (Some \<lparr>type = ''valid_packet'', start_time = 1000000000000,
                   end_time = 1000000006900,
                   data = [(''data'', VStr ''1028250000''), (''checksum'', VInt 8),
                           (''source'', VStr ''Panel''), (''mode'', VStr ''dH''),
                           (''resistor?'', VBool False), (''running'', VBool False),
                           (''settings_changed'', VBool False),
                           (''room_temperature'', VFloat 30), (''plasma'', VBool False),
                           (''fan_speed'', VStr ''high''),
                           (''set_temperature'', VStr ''21''), (''swivel'', VBool False),
                           (''swirl'', VBool False),
                           (''unknown_data'', VBytes [0, 0, 0, 0, 0])]\<rparr>)]"
    by (simp add: example_defs analyzer_defs bytes_hex_def hexdigit_def temperature_def
        str_int_def dec_digits.simps)
  from end_gap_reset [OF h1 h2, of "byte_events (tl panel_bytes) (10 ^ 12 + 2000)"] g1
  have a: "decode late_state late_event = (late_state\<lparr>packet := [late_event]\<rparr>, Inr None)"
    and b: "decode_stream late_state (late_event # byte_events (tl panel_bytes) (10 ^ 12 + 2000)) =
      decode_stream (late_state\<lparr>packet := []\<rparr>)
        (late_event # byte_events (tl panel_bytes) (10 ^ 12 + 2000))"
    by blast+
  from end_gap_reset [OF h3 h2, of "[]"] g2
  have "decode late_state (byte_event 0x28 1000 1900) =
      (if length (packet late_state @ [byte_event 0x28 1000 1900]) = 6 then
         (case recompose_packet (packet late_state @ [byte_event 0x28 1000 1900])
                 (last_end late_state) of
            Inl e \<Rightarrow> (late_state\<lparr>packet := packet late_state @ [byte_event 0x28 1000 1900]\<rparr>, Inl e)
          | Inr analyzed_frame \<Rightarrow>
              (late_state\<lparr>packet := [], last_end := Some (end_time analyzed_frame)\<rparr>,
               Inr (Some analyzed_frame)))
       else (late_state\<lparr>packet := packet late_state @ [byte_event 0x28 1000 1900]\<rparr>, Inr None))"
    by blast
  then have d: "decode late_state (byte_event 0x28 1000 1900) =
       (late_state\<lparr>packet := [byte_event 0xFF 0 900, byte_event 0x28 1000 1900]\<rparr>, Inr None)"
    by (simp add: p)
  show ?thesis
    unfolding b by (intro conjI h1 h2 h3 g1 g2 a s d)
qed

end
